theory Spec2Isabelle
  imports Complex_Main
begin

section \<open>Strings\<close>

text \<open>
  A JavaScript string is a sequence of UTF-16 code units. It is modelled as a \<open>string\<close>
  whose characters are the code units below 256 (\<open>codeUnit\<close> gives the number), so
  \<open>length\<close> and \<open>take\<close> count what \<open>.length\<close> and \<open>.slice(0, n)\<close> count. Operations of
  the platform whose result depends on more than that (case mapping outside ASCII,
  percent-decoding, date parsing, user-agent parsing, rounding to a binary64 number) are
  parameters, collected in the record \<open>lib\<close> below.
\<close>

definition codeUnit :: "char \<Rightarrow> nat" where
  "codeUnit c = of_char c"

text \<open>The code units of \<open>WhiteSpace\<close> and \<open>LineTerminator\<close> (ECMAScript) below 256:
  TAB, LF, VT, FF, CR, SP and NBSP. \<open>String.prototype.trim\<close> removes them at both ends.\<close>

definition isWhiteSpace :: "char \<Rightarrow> bool" where
  "isWhiteSpace c = (codeUnit c \<in> set [9, 10, 11, 12, 13, 32, 160])"

definition trim :: "string \<Rightarrow> string" where
  "trim s = rev (dropWhile isWhiteSpace (rev (dropWhile isWhiteSpace s)))"

definition isHexDigit :: "char \<Rightarrow> bool" where
  "isHexDigit c = (c \<in> set ''0123456789abcdefABCDEF'')"

text \<open>The value of a digit is its position among the digits.\<close>

definition digitValue :: "char \<Rightarrow> nat" where
  "digitValue c =
     length (takeWhile (\<lambda>d. d \<noteq> c)
               (if c \<in> set ''ABCDEF'' then ''0123456789ABCDEF'' else ''0123456789abcdef''))"

definition isDigitOf :: "nat \<Rightarrow> char \<Rightarrow> bool" where
  "isDigitOf base c = (isHexDigit c \<and> digitValue c < base)"

definition digitsValue :: "nat \<Rightarrow> string \<Rightarrow> nat" where
  "digitsValue base s = foldl (\<lambda>a c. a * base + digitValue c) 0 s"

text \<open>The decimal numeral of a natural number, as a template literal prints
  \<open>index + 1\<close> and \<open>entries.length\<close>.\<close>

fun decimal :: "nat \<Rightarrow> string" where
  "decimal n =
     (if n < 10 then [''0123456789'' ! n]
      else decimal (n div 10) @ [''0123456789'' ! (n mod 10)])"

declare decimal.simps [simp del]

text \<open>\<open>line.replaceAll(/\\x([0-9a-fA-F]{2})/g, '%$1')\<close>: scanning from the left, each
  backslash, \<open>x\<close> and two hexadecimal digits become \<open>%\<close> and the two digits.\<close>

fun fixEscaping :: "string \<Rightarrow> string" where
  "fixEscaping (b # x # h1 # h2 # rest) =
     (if b = CHR 0x5C \<and> x = CHR ''x'' \<and> isHexDigit h1 \<and> isHexDigit h2
      then CHR ''%'' # h1 # h2 # fixEscaping rest
      else b # fixEscaping (x # h1 # h2 # rest))"
| "fixEscaping s = s"

section \<open>Numbers and values\<close>

text \<open>A Number: NaN, an infinity, or a finite value (the sign of zero is not kept).\<close>

datatype number = NaN | NegInfinity | Finite rat | PosInfinity

definition isNaN :: "number \<Rightarrow> bool" where
  "isNaN n = (n = NaN)"

text \<open>The values a field of a log entry takes: the strings of the decoded line, and
  what the validators put in their place. A missing property (\<open>undefined\<close>) is \<open>None\<close>
  in the object, which is a map from property names to values.\<close>

datatype jsval = Null | Bool bool | Num number | Str string | DateV int

type_synonym object = "string \<Rightarrow> jsval option"

text \<open>What \<open>JSON.parse\<close> returns; the entries of an object have distinct keys and
  are in the order of \<open>Object.entries\<close>.\<close>

datatype json = JNull | JBool bool | JNumber number | JString string
  | JArray "json list" | JObject "(string \<times> json) list"

datatype exn = Error string | TypeError string | URIError string

fun message :: "exn \<Rightarrow> string" where
  "message (Error m) = m"
| "message (TypeError m) = m"
| "message (URIError m) = m"

record ua_result =
  browser_name :: "string option"
  os_name :: "string option"
  os_version :: "string option"
  device_type :: "string option"

text \<open>
  The platform: functions of Node.js, of the JavaScript engine and of the packages
  \<open>isbot\<close> and \<open>ua-parser-js\<close> that the script calls and that are not part of it.
  \<^item> \<open>JSON_parse\<close>: \<open>JSON.parse\<close>, \<open>None\<close> when it throws;
  \<^item> \<open>isIP\<close>: \<open>net.isIP\<close>, which returns 0, 4 or 6;
  \<^item> \<open>Date_parse\<close>: the time value of \<open>new Date(string)\<close>, \<open>None\<close> for an invalid date;
  \<^item> \<open>decodeEscapes\<close>: \<open>decodeURI\<close> on a string that contains \<open>%\<close>, \<open>None\<close> when it
    throws a URIError;
  \<^item> \<open>upperNonAscii\<close>: the upper-case mapping of a code unit outside ASCII;
  \<^item> \<open>RoundMV\<close>: the binary64 value nearest to a rational, \<open>None\<close> when its magnitude is
    beyond the finite range;
  \<^item> \<open>ToStringOther\<close>: the string conversion of a number or a date;
  \<^item> \<open>isbot\<close> and \<open>UAParser\<close>: the bot heuristic and the user-agent parser's
    \<open>getResult()\<close>, where an \<open>undefined\<close> field is \<open>None\<close>.
\<close>

record lib =
  JSON_parse :: "string \<Rightarrow> json option"
  isIP :: "string \<Rightarrow> nat"
  Date_parse :: "string \<Rightarrow> int option"
  decodeEscapes :: "string \<Rightarrow> string option"
  upperNonAscii :: "char \<Rightarrow> string"
  RoundMV :: "rat \<Rightarrow> rat option"
  ToStringOther :: "jsval \<Rightarrow> string"
  isbot :: "string \<Rightarrow> bool"
  UAParser :: "string \<Rightarrow> ua_result"

subsection \<open>\<open>toUpperCase\<close>, \<open>decodeURI\<close>\<close>

definition upperChar :: "lib \<Rightarrow> char \<Rightarrow> string" where
  "upperChar L c =
     (if codeUnit c < 128 then
        (case map_of (zip ''abcdefghijklmnopqrstuvwxyz'' ''ABCDEFGHIJKLMNOPQRSTUVWXYZ'') c of
           Some u \<Rightarrow> [u]
         | None \<Rightarrow> [c])
      else upperNonAscii L c)"

definition toUpperCase :: "lib \<Rightarrow> string \<Rightarrow> string" where
  "toUpperCase L s = concat (map (upperChar L) s)"

text \<open>\<open>decodeURI\<close> only rewrites escape sequences, which start with \<open>%\<close>.\<close>

definition decodeURI :: "lib \<Rightarrow> string \<Rightarrow> string option" where
  "decodeURI L s = (if CHR ''%'' \<in> set s then decodeEscapes L s else Some s)"

subsection \<open>\<open>Number(string)\<close>\<close>

text \<open>
  \<open>StringToNumber\<close> of ECMAScript: the string is trimmed; the empty string is 0; a
  \<open>StrNumericLiteral\<close> has its mathematical value, rounded; anything else is NaN.
\<close>

definition isDigits :: "nat \<Rightarrow> string \<Rightarrow> bool" where
  "isDigits base s = (s \<noteq> [] \<and> list_all (isDigitOf base) s)"

definition ExponentPart :: "string \<Rightarrow> int option" where
  "ExponentPart s =
     (case s of
        [] \<Rightarrow> None
      | c # ds \<Rightarrow>
          if c = CHR ''+'' then (if isDigits 10 ds then Some (int (digitsValue 10 ds)) else None)
          else if c = CHR ''-'' then (if isDigits 10 ds then Some (- int (digitsValue 10 ds)) else None)
          else if isDigits 10 s then Some (int (digitsValue 10 s))
          else None)"

definition scale :: "rat \<Rightarrow> int \<Rightarrow> rat" where
  "scale m e = (if 0 \<le> e then m * 10 ^ nat e else m / 10 ^ nat (- e))"

definition optExponent :: "rat \<Rightarrow> string \<Rightarrow> rat option" where
  "optExponent m r =
     (case r of
        [] \<Rightarrow> Some m
      | c # x \<Rightarrow>
          if c = CHR ''e'' \<or> c = CHR ''E''
          then (case ExponentPart x of None \<Rightarrow> None | Some e \<Rightarrow> Some (scale m e))
          else None)"

definition StrUnsignedDecimalLiteral :: "string \<Rightarrow> rat option" where
  "StrUnsignedDecimalLiteral s =
     (let ip = takeWhile (isDigitOf 10) s; r1 = dropWhile (isDigitOf 10) s in
      case r1 of
        [] \<Rightarrow> if ip = [] then None else Some (of_nat (digitsValue 10 ip))
      | c # r \<Rightarrow>
          if c = CHR ''.'' then
            (let fp = takeWhile (isDigitOf 10) r; r2 = dropWhile (isDigitOf 10) r in
             if ip = [] \<and> fp = [] then None
             else optExponent
                    (of_nat (digitsValue 10 ip) + of_nat (digitsValue 10 fp) / 10 ^ length fp) r2)
          else if ip = [] then None
          else optExponent (of_nat (digitsValue 10 ip)) r1)"

definition NonDecimalIntegerLiteral :: "string \<Rightarrow> nat option" where
  "NonDecimalIntegerLiteral t =
     (case t of
        z # p # ds \<Rightarrow>
          if z \<noteq> CHR ''0'' then None
          else if (p = CHR ''x'' \<or> p = CHR ''X'') \<and> isDigits 16 ds then Some (digitsValue 16 ds)
          else if (p = CHR ''o'' \<or> p = CHR ''O'') \<and> isDigits 8 ds then Some (digitsValue 8 ds)
          else if (p = CHR ''b'' \<or> p = CHR ''B'') \<and> isDigits 2 ds then Some (digitsValue 2 ds)
          else None
      | _ \<Rightarrow> None)"

definition roundNumber :: "lib \<Rightarrow> rat \<Rightarrow> number" where
  "roundNumber L q =
     (case RoundMV L q of
        Some r \<Rightarrow> Finite r
      | None \<Rightarrow> if q < 0 then NegInfinity else PosInfinity)"

definition unsignedLiteral :: "lib \<Rightarrow> bool \<Rightarrow> string \<Rightarrow> number" where
  "unsignedLiteral L neg u =
     (if u = ''Infinity'' then (if neg then NegInfinity else PosInfinity)
      else case StrUnsignedDecimalLiteral u of
             None \<Rightarrow> NaN
           | Some q \<Rightarrow> roundNumber L (if neg then - q else q))"

definition StrDecimalLiteral :: "lib \<Rightarrow> string \<Rightarrow> number" where
  "StrDecimalLiteral L t =
     (case t of
        [] \<Rightarrow> NaN
      | c # u \<Rightarrow>
          if c = CHR ''+'' then unsignedLiteral L False u
          else if c = CHR ''-'' then unsignedLiteral L True u
          else unsignedLiteral L False t)"

definition StringToNumber :: "lib \<Rightarrow> string \<Rightarrow> number" where
  "StringToNumber L s =
     (let t = trim s in
      if t = [] then Finite 0
      else case NonDecimalIntegerLiteral t of
             Some n \<Rightarrow> roundNumber L (of_nat n)
           | None \<Rightarrow> StrDecimalLiteral L t)"

subsection \<open>Conversions of a property value\<close>

text \<open>\<open>`${v}`\<close>, \<open>Number(v)\<close>, \<open>new Date(v)\<close> and \<open>!v\<close> for a property \<open>v\<close> of the
  object (\<open>None\<close> is \<open>undefined\<close>).\<close>

definition ToString :: "lib \<Rightarrow> jsval option \<Rightarrow> string" where
  "ToString L v =
     (case v of
        None \<Rightarrow> ''undefined''
      | Some (Str s) \<Rightarrow> s
      | Some Null \<Rightarrow> ''null''
      | Some (Bool b) \<Rightarrow> (if b then ''true'' else ''false'')
      | Some w \<Rightarrow> ToStringOther L w)"

definition ToNumber :: "lib \<Rightarrow> jsval option \<Rightarrow> number" where
  "ToNumber L v =
     (case v of
        None \<Rightarrow> NaN
      | Some Null \<Rightarrow> Finite 0
      | Some (Bool b) \<Rightarrow> Finite (if b then 1 else 0)
      | Some (Num n) \<Rightarrow> n
      | Some (Str s) \<Rightarrow> StringToNumber L s
      | Some (DateV t) \<Rightarrow> Finite (of_int t))"

definition TimeClip :: "number \<Rightarrow> int option" where
  "TimeClip n =
     (case n of
        Finite q \<Rightarrow>
          if \<bar>q\<bar> > 8640000000000000 then None
          else Some (if 0 \<le> q then \<lfloor>q\<rfloor> else \<lceil>q\<rceil>)
      | _ \<Rightarrow> None)"

definition NewDate :: "lib \<Rightarrow> jsval option \<Rightarrow> int option" where
  "NewDate L v =
     (case v of
        None \<Rightarrow> None
      | Some (Str s) \<Rightarrow> Date_parse L s
      | Some (DateV t) \<Rightarrow> Some t
      | Some w \<Rightarrow> TimeClip (ToNumber L (Some w)))"

definition falsy :: "jsval option \<Rightarrow> bool" where
  "falsy v =
     (case v of
        None \<Rightarrow> True
      | Some Null \<Rightarrow> True
      | Some (Bool b) \<Rightarrow> \<not> b
      | Some (Num n) \<Rightarrow> n = NaN \<or> n = Finite 0
      | Some (Str s) \<Rightarrow> s = []
      | Some (DateV t) \<Rightarrow> False)"

text \<open>The receiver of a string method call \<open>object.field.method(...)\<close>: the string, or
  the TypeError of the engine (V8's wording) when the property is not a string.\<close>

definition receiver :: "string \<Rightarrow> string \<Rightarrow> jsval option \<Rightarrow> exn + string" where
  "receiver field method v =
     (case v of
        Some (Str s) \<Rightarrow> Inr s
      | None \<Rightarrow>
          Inl (TypeError (''Cannot read properties of undefined (reading ''
                 @ [CHR 0x27] @ method @ [CHR 0x27] @ '')''))
      | Some Null \<Rightarrow>
          Inl (TypeError (''Cannot read properties of null (reading ''
                 @ [CHR 0x27] @ method @ [CHR 0x27] @ '')''))
      | Some w \<Rightarrow>
          Inl (TypeError (''object.'' @ field @ ''.'' @ method @ '' is not a function'')))"

section \<open>The validators\<close>

definition VALID_HTTP_METHODS :: "string list" where
  "VALID_HTTP_METHODS =
     [''GET'', ''HEAD'', ''POST'', ''PUT'', ''DELETE'', ''CONNECT'', ''OPTIONS'', ''TRACE'',
      ''PATCH'', ''-'']"

definition VALID_HTTP_STATUSES :: "int list" where
  "VALID_HTTP_STATUSES =
     [100, 101, 102, 103, 200, 201, 202, 203, 204, 206, 207, 208, 226, 300, 301,
      302, 303, 304, 307, 308, 400, 401, 402, 403, 404, 405, 406, 407, 408, 409,
      410, 411, 412, 413, 414, 415, 416, 417, 418, 421, 422, 423, 424, 425, 426,
      428, 429, 431, 444, 450, 451, 497, 498, 499, 500, 501, 502, 503, 504, 505,
      506, 507, 508, 510, 511]"

definition MAX_PATH_QUERY_LENGTH :: nat where
  "MAX_PATH_QUERY_LENGTH = 255"

definition MAX_COUNTRY_LENGTH :: nat where
  "MAX_COUNTRY_LENGTH = 8"

definition CHUNK_SIZE :: nat where
  "CHUNK_SIZE = 20000"

definition gracefulParse :: "lib \<Rightarrow> string \<Rightarrow> exn + json" where
  "gracefulParse L text =
     (case JSON_parse L text of
        Some j \<Rightarrow> Inr j
      | None \<Rightarrow> Inl (Error ''Invalid JSON.''))"

text \<open>\<open>Object.entries\<close>: the own enumerable string-keyed properties. It throws on
  \<open>null\<close>; a number or a boolean has none, an array and a string have their indices.\<close>

definition Object_entries :: "json \<Rightarrow> exn + (string \<times> json) list" where
  "Object_entries j =
     (case j of
        JNull \<Rightarrow> Inl (TypeError ''Cannot convert undefined or null to object'')
      | JBool b \<Rightarrow> Inr []
      | JNumber n \<Rightarrow> Inr []
      | JString s \<Rightarrow> Inr (zip (map decimal [0..<length s]) (map (\<lambda>c. JString [c]) s))
      | JArray xs \<Rightarrow> Inr (zip (map decimal [0..<length xs]) xs)
      | JObject kvs \<Rightarrow> Inr kvs)"

fun stringEntry :: "string \<times> json \<Rightarrow> string \<times> jsval" where
  "stringEntry (k, JString s) = (k, Str s)"
| "stringEntry (k, _) = (k, Null)"

fun notString :: "string \<times> json \<Rightarrow> bool" where
  "notString (k, JString s) = False"
| "notString (k, _) = True"

text \<open>
  \<open>checkFieldsAreStrings\<close> returns the object it was given. The validators after it
  only read own properties by name and copy the object with the spread syntax, so the
  object is passed on as the map of its entries (all of them strings here).
\<close>

definition checkFieldsAreStrings :: "json \<Rightarrow> exn + object" where
  "checkFieldsAreStrings j =
     (case Object_entries j of
        Inl e \<Rightarrow> Inl e
      | Inr kvs \<Rightarrow>
          (case find notString kvs of
             Some (key, v) \<Rightarrow>
               Inl (Error (''Field '' @ [CHR 0x27] @ key @ [CHR 0x27] @ '' is not a string.''))
           | None \<Rightarrow> Inr (map_of (map stringEntry kvs))))"

text \<open>\<open>net.isIP\<close> tests the string conversion of its argument, which for a missing
  host is \<open>undefined\<close>, as in the message.\<close>

definition checkValidIP :: "lib \<Rightarrow> object \<Rightarrow> exn + object" where
  "checkValidIP L obj =
     (if isIP L (ToString L (obj ''host'')) = 0
      then Inl (Error (''Invalid IP address: '' @ ToString L (obj ''host'')))
      else Inr obj)"

definition checkValidTime :: "lib \<Rightarrow> object \<Rightarrow> exn + object" where
  "checkValidTime L obj =
     (case NewDate L (obj ''time'') of
        None \<Rightarrow> Inl (Error (''Invalid time: '' @ ToString L (obj ''time'')))
      | Some time \<Rightarrow> Inr (obj(''time'' \<mapsto> DateV time)))"

definition checkValidMethod :: "lib \<Rightarrow> object \<Rightarrow> exn + object" where
  "checkValidMethod L obj =
     (case receiver ''method'' ''toUpperCase'' (obj ''method'') of
        Inl e \<Rightarrow> Inl e
      | Inr m \<Rightarrow>
          (let method = toUpperCase L m in
           if method \<notin> set VALID_HTTP_METHODS
           then Inl (Error (''Invalid HTTP method: '' @ method))
           else Inr (obj(''method'' \<mapsto> (if method = ''-'' then Null else Str method)))))"

definition checkPathQuery :: "lib \<Rightarrow> object \<Rightarrow> exn + object" where
  "checkPathQuery L obj =
     (case decodeURI L (ToString L (obj ''path'')) of
        None \<Rightarrow> Inl (URIError ''URI malformed'')
      | Some p \<Rightarrow>
          (case decodeURI L (ToString L (obj ''query'')) of
             None \<Rightarrow> Inl (URIError ''URI malformed'')
           | Some q \<Rightarrow>
               (let path = take MAX_PATH_QUERY_LENGTH p;
                    query = take MAX_PATH_QUERY_LENGTH q
                in Inr (obj(''path'' \<mapsto> (if path = ''-'' then Null else Str path),
                            ''query'' \<mapsto> (if query = [] then Null else Str query))))))"

definition includesStatus :: "number \<Rightarrow> bool" where
  "includesStatus n =
     (case n of Finite q \<Rightarrow> q \<in> of_int ` set VALID_HTTP_STATUSES | _ \<Rightarrow> False)"

definition checkStatus :: "lib \<Rightarrow> object \<Rightarrow> exn + object" where
  "checkStatus L obj =
     (let status = ToNumber L (obj ''status'') in
      if \<not> includesStatus status
      then Inl (Error (''Invalid HTTP status: '' @ ToString L (obj ''status'')))
      else Inr (obj(''status'' \<mapsto> Num status)))"

definition checkResponseSize :: "lib \<Rightarrow> object \<Rightarrow> exn + object" where
  "checkResponseSize L obj =
     (let responseSize = ToNumber L (obj ''responseSize'') in
      if isNaN responseSize
      then Inl (Error (''Invalid response size: '' @ ToString L (obj ''responseSize'')))
      else Inr (obj(''responseSize'' \<mapsto> Num responseSize)))"

definition checkProcessTime :: "lib \<Rightarrow> object \<Rightarrow> exn + object" where
  "checkProcessTime L obj =
     (let processTime = ToNumber L (obj ''processTime'') in
      if isNaN processTime
      then Inl (Error (''Invalid response size: '' @ ToString L (obj ''processTime'')))
      else Inr (obj(''processTime'' \<mapsto> Num processTime)))"

definition trimReferer :: "lib \<Rightarrow> object \<Rightarrow> exn + object" where
  "trimReferer L obj =
     (case receiver ''referer'' ''slice'' (obj ''referer'') of
        Inl e \<Rightarrow> Inl e
      | Inr r \<Rightarrow> Inr (obj(''referer'' \<mapsto> Str (take MAX_PATH_QUERY_LENGTH r))))"

definition trimUser :: "lib \<Rightarrow> object \<Rightarrow> exn + object" where
  "trimUser L obj =
     (case receiver ''user'' ''slice'' (obj ''user'') of
        Inl e \<Rightarrow> Inl e
      | Inr u \<Rightarrow>
          (let user = take MAX_PATH_QUERY_LENGTH u
           in Inr (obj(''user'' \<mapsto> (if user = ''-'' then Null else Str user)))))"

definition checkCountry :: "lib \<Rightarrow> object \<Rightarrow> exn + object" where
  "checkCountry L obj =
     (if obj ''country'' = Some (Str ''-'') then Inr (obj(''country'' \<mapsto> Null))
      else case receiver ''country'' ''slice'' (obj ''country'') of
             Inl e \<Rightarrow> Inl e
           | Inr c \<Rightarrow>
               Inr (obj(''country'' \<mapsto> Str (toUpperCase L (take MAX_COUNTRY_LENGTH c)))))"

text \<open>\<open>name || null\<close> for a field of the parser's result.\<close>

definition orNull :: "string option \<Rightarrow> jsval" where
  "orNull n = (case n of None \<Rightarrow> Null | Some s \<Rightarrow> if s = [] then Null else Str s)"

definition osString :: "ua_result \<Rightarrow> jsval" where
  "osString r =
     (case os_name r of
        None \<Rightarrow> Null
      | Some n \<Rightarrow>
          if n = [] then Null
          else (case os_version r of
                  None \<Rightarrow> Str n
                | Some v \<Rightarrow> if v = [] then Str n else Str (n @ '' '' @ v)))"

definition deviceTypeOf :: "bool \<Rightarrow> ua_result \<Rightarrow> string" where
  "deviceTypeOf isBot r =
     (if isBot then ''unknown''
      else case device_type r of
             None \<Rightarrow> ''other''
           | Some t \<Rightarrow> if t = [] then ''other'' else t)"

text \<open>After the first test the user agent is a non-empty string other than \<open>-\<close>, or a
  value that is not a string (which no validator produces and \<open>checkFieldsAreStrings\<close>
  excludes); for the latter the model gives the TypeError of the final \<open>.slice\<close>.\<close>

definition decomposeUserAgent :: "lib \<Rightarrow> object \<Rightarrow> exn + object" where
  "decomposeUserAgent L obj =
     (if obj ''userAgent'' = Some (Str ''-'') \<or> falsy (obj ''userAgent'')
      then Inr (obj(''bot'' \<mapsto> Bool False,
                    ''browser'' \<mapsto> Null,
                    ''deviceType'' \<mapsto> Str ''unknown'',
                    ''os'' \<mapsto> Null,
                    ''userAgent'' \<mapsto> Null))
      else case receiver ''userAgent'' ''slice'' (obj ''userAgent'') of
             Inl e \<Rightarrow> Inl e
           | Inr ua \<Rightarrow>
               (let isBot = isbot L ua;
                    userAgent = UAParser L ua;
                    browser = orNull (browser_name userAgent);
                    os = osString userAgent;
                    deviceType = deviceTypeOf isBot userAgent
                in Inr (obj(''bot'' \<mapsto> Bool isBot,
                            ''browser'' \<mapsto> browser,
                            ''deviceType'' \<mapsto> Str deviceType,
                            ''os'' \<mapsto> os,
                            ''userAgent'' \<mapsto> Str (take MAX_PATH_QUERY_LENGTH ua)))))"

section \<open>The validation pipeline and the entry loader\<close>

text \<open>A chain of \<open>.then\<close> calls: the first rejection skips the rest.\<close>

fun chain :: "('a \<Rightarrow> exn + 'a) list \<Rightarrow> 'a \<Rightarrow> exn + 'a" where
  "chain [] x = Inr x"
| "chain (f # fs) x = (case f x of Inl e \<Rightarrow> Inl e | Inr y \<Rightarrow> chain fs y)"

definition validators :: "lib \<Rightarrow> (object \<Rightarrow> exn + object) list" where
  "validators L =
     [checkValidIP L, checkValidTime L, checkValidMethod L, checkPathQuery L,
      checkStatus L, checkResponseSize L, checkProcessTime L, trimReferer L,
      trimUser L, checkCountry L, decomposeUserAgent L]"

definition pipeline :: "lib \<Rightarrow> string \<Rightarrow> exn + object" where
  "pipeline L line =
     (case gracefulParse L (fixEscaping line) of
        Inl e \<Rightarrow> Inl e
      | Inr j \<Rightarrow>
          (case checkFieldsAreStrings j of
             Inl e \<Rightarrow> Inl e
           | Inr obj \<Rightarrow> chain (validators L) obj))"

record failed_entry =
  error :: string
  line :: string

text \<open>\<open>error && error.message || 'Unknown error.'\<close>\<close>

definition errorText :: "exn \<Rightarrow> string" where
  "errorText e = (if message e = [] then ''Unknown error.'' else message e)"

text \<open>The body of the \<open>for await\<close> loop of \<open>loadEntries\<close>, over the lines that the
  stream delivers, with the two arrays it pushes to.\<close>

fun loadLines ::
  "lib \<Rightarrow> string list \<Rightarrow> object list \<times> failed_entry list \<Rightarrow> object list \<times> failed_entry list"
where
  "loadLines L [] (successful, failed) = (successful, failed)"
| "loadLines L (l # rest) (successful, failed) =
     (if trim l = [] then loadLines L rest (successful, failed)
      else case pipeline L l of
             Inr entry \<Rightarrow> loadLines L rest (successful @ [entry], failed)
           | Inl e \<Rightarrow>
               loadLines L rest (successful, failed @ [\<lparr>error = errorText e, line = l\<rparr>]))"

section \<open>Effects: notifications, the store and the files\<close>

text \<open>
  Every call that reaches outside the process is an event of a trace, in the order of the
  calls. The script awaits each call before the next, so the trace is a list. Whether a
  call fails is given by the \<open>world\<close>; for the webhook and the pool it may depend on
  all that happened before. The time stamps printed by \<open>console\<close> are left out.
\<close>

type_synonym row = "jsval option list"

datatype event =
    ConsoleInfo string
  | ConsoleError string exn
  | ConsoleDebug "failed_entry list"
  | WebhookSend string
  | WebhookDestroy
  | CopyFile
  | OpenSource
  | SourceEnd
  | Truncate
  | CreatePool
  | PoolQuery "row list"
  | PoolEnd
  | Exit nat

text \<open>
  \<^item> \<open>sourceLines\<close>: the lines that the read stream of the source file delivers;
  \<^item> \<open>readError\<close>: the error with which the stream fails after them, if it does;
  \<^item> \<open>copyError\<close>, \<open>truncateError\<close>, \<open>endError\<close>: the rejection of \<open>copyFile\<close>,
    \<open>truncate\<close> and \<open>pool.end\<close>, if any;
  \<^item> \<open>sendError\<close>, \<open>queryError\<close>: the rejection of \<open>webhook.send\<close> and
    \<open>pool.query\<close>, given the trace before the call and the content or the rows.
\<close>

record world =
  sourceLines :: "string list"
  readError :: "exn option"
  copyError :: "exn option"
  truncateError :: "exn option"
  endError :: "exn option"
  sendError :: "event list \<Rightarrow> string \<Rightarrow> exn option"
  queryError :: "event list \<Rightarrow> row list \<Rightarrow> exn option"

definition loadEntries ::
  "lib \<Rightarrow> world \<Rightarrow> event list \<Rightarrow> event list \<times> (exn + object list \<times> failed_entry list)"
where
  "loadEntries L W tr =
     (case readError W of
        None \<Rightarrow> (tr @ [OpenSource, SourceEnd], Inr (loadLines L (sourceLines W) ([], [])))
      | Some e \<Rightarrow> (tr @ [OpenSource], Inl e))"

definition report :: "world \<Rightarrow> event list \<Rightarrow> string \<Rightarrow> event list" where
  "report W tr msg =
     (let tr1 = tr @ [ConsoleInfo msg]; content = take 2000 msg in
      case sendError W tr1 content of
        None \<Rightarrow> tr1 @ [WebhookSend content]
      | Some e \<Rightarrow> tr1 @ [WebhookSend content, ConsoleError ''Webhook error:'' e])"

definition formatEntry :: "nat \<times> failed_entry \<Rightarrow> string" where
  "formatEntry p =
     (case p of (index, e) \<Rightarrow>
        decimal (index + 1) @ ''. Error: '' @ error e @ '', line:\<newline>```json\<newline>''
          @ line e @ ''```'')"

definition reportFailedEntries :: "world \<Rightarrow> event list \<Rightarrow> failed_entry list \<Rightarrow> event list" where
  "reportFailedEntries W tr entries =
     (if length entries = 0 then tr
      else
        let formattedEntries = concat (map formatEntry (enumerate 0 (take 5 entries)));
            tr1 = report W tr
                    (decimal (length entries) @ '' entries failed, first 5 are displayed:\<newline>''
                       @ formattedEntries)
        in if length entries > 5 then tr1 @ [ConsoleDebug entries] else tr1)"

definition COLUMNS :: "string list" where
  "COLUMNS =
     [''host'', ''user'', ''time'', ''method'', ''path'', ''query'', ''status'',
      ''responseSize'', ''processTime'', ''referer'', ''userAgent'', ''bot'', ''browser'',
      ''deviceType'', ''os'', ''country'']"

definition rowOf :: "object \<Rightarrow> row" where
  "rowOf e = map e COLUMNS"

text \<open>The \<open>for\<close> loop of \<open>insertEntries\<close>: \<open>start\<close> advances by \<open>CHUNK_SIZE\<close>, and a
  rejected query leaves the loop with its error.\<close>

function insertLoop ::
  "world \<Rightarrow> object list \<Rightarrow> nat \<Rightarrow> event list \<Rightarrow> event list \<times> exn option"
where
  "insertLoop W entries start tr =
     (if start < length entries then
        (let batch = take CHUNK_SIZE (drop start entries);
             rows = map rowOf batch
         in case queryError W tr rows of
              Some e \<Rightarrow> (tr @ [PoolQuery rows], Some e)
            | None \<Rightarrow> insertLoop W entries (start + CHUNK_SIZE) (tr @ [PoolQuery rows]))
      else (tr, None))"
  by pat_completeness auto
termination
  by (relation "measure (\<lambda>(W, entries, start, tr). length entries - start)")
     (auto simp: CHUNK_SIZE_def)

declare insertLoop.simps [simp del]

definition insertEntries :: "world \<Rightarrow> event list \<Rightarrow> object list \<Rightarrow> event list \<times> (exn + unit)" where
  "insertEntries W tr entries =
     (case insertLoop W entries 0 (tr @ [CreatePool]) of
        (tr1, Some e) \<Rightarrow> (tr1, Inl e)
      | (tr1, None) \<Rightarrow>
          (case endError W of
             None \<Rightarrow> (tr1 @ [PoolEnd], Inr ())
           | Some e \<Rightarrow> (tr1 @ [PoolEnd], Inl e)))"

text \<open>The \<open>try\<close> block of \<open>main\<close>, after the configuration is loaded, split at its
  awaits; then \<open>main\<close> with its \<open>catch\<close>. \<open>argv\<close> is the command line.\<close>

definition transfer ::
  "lib \<Rightarrow> world \<Rightarrow> bool \<Rightarrow> event list \<Rightarrow> object list \<times> failed_entry list
     \<Rightarrow> event list \<times> (exn + unit)"
where
  "transfer L W doInsert tr loaded =
     (case loaded of (entries, failedEntries) \<Rightarrow>
        let tr1 = reportFailedEntries W tr failedEntries;
            summary = decimal (length entries) @ '' entries successfully transferred.''
        in if doInsert then
             (case insertEntries W tr1 entries of
                (tr2, Inl e) \<Rightarrow> (tr2, Inl e)
              | (tr2, Inr u) \<Rightarrow> (report W tr2 summary, Inr ()))
           else (report W tr1 summary, Inr ()))"

definition parseAndTransfer ::
  "lib \<Rightarrow> world \<Rightarrow> bool \<Rightarrow> bool \<Rightarrow> event list \<Rightarrow> event list \<times> (exn + unit)"
where
  "parseAndTransfer L W doTruncate doInsert tr =
     (case loadEntries L W tr of
        (tr1, Inl e) \<Rightarrow> (tr1, Inl e)
      | (tr1, Inr loaded) \<Rightarrow>
          if doTruncate then
            (case truncateError W of
               Some e \<Rightarrow> (tr1 @ [Truncate], Inl e)
             | None \<Rightarrow> transfer L W doInsert (tr1 @ [Truncate]) loaded)
          else transfer L W doInsert tr1 loaded)"

definition tryBlock ::
  "lib \<Rightarrow> world \<Rightarrow> bool \<Rightarrow> bool \<Rightarrow> event list \<times> (exn + unit)"
where
  "tryBlock L W doTruncate doInsert =
     (let tr = report W [] ''Log transfer started.'' in
      if doTruncate then
        (case copyError W of
           Some e \<Rightarrow> (tr @ [CopyFile], Inl e)
         | None \<Rightarrow> parseAndTransfer L W doTruncate doInsert (tr @ [CopyFile]))
      else parseAndTransfer L W doTruncate doInsert tr)"

definition main :: "lib \<Rightarrow> world \<Rightarrow> string list \<Rightarrow> event list" where
  "main L W argv =
     (let doTruncate = ''--no-truncate'' \<notin> set argv;
          doInsert = ''--no-insert'' \<notin> set argv
      in case tryBlock L W doTruncate doInsert of
           (tr, Inr u) \<Rightarrow> tr @ [WebhookDestroy]
         | (tr, Inl e) \<Rightarrow>
             report W tr (''Log transfer failed: '' @ message e)
               @ [ConsoleError ''Full error:'' e, Exit 1])"

section \<open>The specification of the chunks\<close>

text \<open>The batch loader in the words of the specification: the consecutive chunks of at
  most \<open>n\<close> elements of a list.\<close>

function chunksOf :: "nat \<Rightarrow> 'a list \<Rightarrow> 'a list list" where
  "chunksOf n xs = (if n = 0 \<or> xs = [] then [] else take n xs # chunksOf n (drop n xs))"
  by pat_completeness auto
termination
  by (relation "measure (\<lambda>(n, xs). length xs)") auto

declare chunksOf.simps [simp del]

text \<open>The queries for a list of batches, one after the other, up to the first one that
  the store rejects.\<close>

fun issue :: "world \<Rightarrow> row list list \<Rightarrow> event list \<Rightarrow> event list \<times> exn option" where
  "issue W [] tr = (tr, None)"
| "issue W (c # cs) tr =
     (case queryError W tr c of
        Some e \<Rightarrow> (tr @ [PoolQuery c], Some e)
      | None \<Rightarrow> issue W cs (tr @ [PoolQuery c]))"

section \<open>A sample platform, sample records and sample worlds\<close>

text \<open>One line of the access log and the object that \<open>JSON.parse\<close> makes of it.\<close>

definition goodLine :: string where
  \<open>goodLine = ''{"host":"127.0.0.1","user":"-","time":"2024-01-01T00:00:00Z","method":"get","path":"/wiki","query":"","status":"200","responseSize":" ","processTime":"12","referer":"-","userAgent":"Googlebot/2.1","country":"us"}''\<close>

definition goodJson :: json where
  "goodJson =
     JObject [(''host'', JString ''127.0.0.1''), (''user'', JString ''-''),
       (''time'', JString ''2024-01-01T00:00:00Z''), (''method'', JString ''get''),
       (''path'', JString ''/wiki''), (''query'', JString ''''), (''status'', JString ''200''),
       (''responseSize'', JString '' ''), (''processTime'', JString ''12''),
       (''referer'', JString ''-''), (''userAgent'', JString ''Googlebot/2.1''),
       (''country'', JString ''us'')]"

text \<open>The line again with a process time that is not a number, and its object.\<close>

definition badTimeLine :: string where
  \<open>badTimeLine = ''{"host":"127.0.0.1","user":"-","time":"2024-01-01T00:00:00Z","method":"get","path":"/wiki","query":"","status":"200","responseSize":"512","processTime":"abc","referer":"-","userAgent":"Googlebot/2.1","country":"us"}''\<close>

definition badTimeJson :: json where
  "badTimeJson =
     JObject [(''host'', JString ''127.0.0.1''), (''user'', JString ''-''),
       (''time'', JString ''2024-01-01T00:00:00Z''), (''method'', JString ''get''),
       (''path'', JString ''/wiki''), (''query'', JString ''''), (''status'', JString ''200''),
       (''responseSize'', JString ''512''), (''processTime'', JString ''abc''),
       (''referer'', JString ''-''), (''userAgent'', JString ''Googlebot/2.1''),
       (''country'', JString ''us'')]"

text \<open>The record of \<open>goodLine\<close> after \<open>checkFieldsAreStrings\<close>, and variants of it.\<close>

definition goodRecord :: object where
  "goodRecord =
     map_of [(''host'', Str ''127.0.0.1''), (''user'', Str ''-''),
       (''time'', Str ''2024-01-01T00:00:00Z''), (''method'', Str ''get''),
       (''path'', Str ''/wiki''), (''query'', Str ''''), (''status'', Str ''200''),
       (''responseSize'', Str '' ''), (''processTime'', Str ''12''),
       (''referer'', Str ''-''), (''userAgent'', Str ''Googlebot/2.1''),
       (''country'', Str ''us'')]"

definition dashRecord :: object where
  "dashRecord = goodRecord(''method'' \<mapsto> Str ''-'')"

definition dashAgentRecord :: object where
  "dashAgentRecord = goodRecord(''userAgent'' \<mapsto> Str ''-'')"

text \<open>A platform that knows these two lines, one address, one date and one bot.\<close>

definition sampleLib :: lib where
  "sampleLib = \<lparr>
     JSON_parse = (\<lambda>s. if s = goodLine then Some goodJson
                       else if s = badTimeLine then Some badTimeJson else None),
     isIP = (\<lambda>s. if s = ''127.0.0.1'' then 4 else 0),
     Date_parse = (\<lambda>s. if s = ''2024-01-01T00:00:00Z'' then Some 1704067200000 else None),
     decodeEscapes = (\<lambda>s. None),
     upperNonAscii = (\<lambda>c. [c]),
     RoundMV = (\<lambda>q. Some q),
     ToStringOther = (\<lambda>v. ''''),
     isbot = (\<lambda>s. s = ''Googlebot/2.1''),
     UAParser = (\<lambda>s. \<lparr>browser_name = None, os_name = Some ''Android'',
                          os_version = Some ''14'', device_type = Some ''mobile''\<rparr>) \<rparr>"

definition blankRecord :: object where
  "blankRecord = [''responseSize'' \<mapsto> Str '' '', ''processTime'' \<mapsto> Str '' '']"

definition sentinelRecord :: object where
  "sentinelRecord =
     goodRecord(''method'' \<mapsto> Str ''-'', ''path'' \<mapsto> Str ''-'', ''country'' \<mapsto> Str ''-'',
       ''userAgent'' \<mapsto> Str ''-'')"

text \<open>The entry that the pipeline makes of \<open>goodLine\<close> on the sample platform.\<close>

definition goodEntry :: object where
  "goodEntry =
     goodRecord(''time'' \<mapsto> DateV 1704067200000, ''method'' \<mapsto> Str ''GET'',
       ''path'' \<mapsto> Str ''/wiki'', ''query'' \<mapsto> Null, ''status'' \<mapsto> Num (Finite 200),
       ''responseSize'' \<mapsto> Num (Finite 0), ''processTime'' \<mapsto> Num (Finite 12),
       ''referer'' \<mapsto> Str ''-'', ''user'' \<mapsto> Null, ''country'' \<mapsto> Str ''US'',
       ''bot'' \<mapsto> Bool True, ''browser'' \<mapsto> Null, ''deviceType'' \<mapsto> Str ''unknown'',
       ''os'' \<mapsto> Str ''Android 14'', ''userAgent'' \<mapsto> Str ''Googlebot/2.1'')"

text \<open>A world in which nothing fails, and one whose store rejects every query.\<close>

definition calmWorld :: world where
  "calmWorld = \<lparr>
     sourceLines = [goodLine, ''  '', badTimeLine],
     readError = None,
     copyError = None,
     truncateError = None,
     endError = None,
     sendError = (\<lambda>tr content. None),
     queryError = (\<lambda>tr rows. None) \<rparr>"

definition brokenStore :: world where
  "brokenStore = calmWorld\<lparr>queryError := (\<lambda>tr rows. Some (Error ''Connection lost''))\<rparr>"

text \<open>A world whose source file cannot be read.\<close>

definition unreadableWorld :: world where
  "unreadableWorld = calmWorld\<lparr>sourceLines := [], readError := Some (Error ''ENOENT'')\<rparr>"




section \<open>Predicates of the statements\<close>

text \<open>None of the host, the time, the status, the response size, the process time and
  the referer of the object is \<open>null\<close>.\<close>

definition neverAbsent :: "object \<Rightarrow> bool" where
  "neverAbsent obj =
     list_all (\<lambda>k. obj k \<noteq> Some Null)
       [''host'', ''time'', ''status'', ''responseSize'', ''processTime'', ''referer'']"

text \<open>The events that touch the source file or its backup.\<close>

definition isFileEvent :: "event \<Rightarrow> bool" where
  "isFileEvent ev = (ev \<in> set [CopyFile, OpenSource, SourceEnd, Truncate])"


section \<open>Properties\<close>

subsection \<open>Blank strings\<close>

lemma dropWhile_all: "list_all P s \<Longrightarrow> dropWhile P s = []"
  by (induction s) auto

lemma trim_blank: "list_all isWhiteSpace s \<Longrightarrow> trim s = []"
  by (simp add: trim_def dropWhile_all)

lemma StringToNumber_blank: "list_all isWhiteSpace s \<Longrightarrow> StringToNumber L s = Finite 0"
  by (simp add: StringToNumber_def trim_blank)

text \<open>
  C10. When the \<open>responseSize\<close> or the \<open>processTime\<close> of a record is the empty string or
  consists of white space only, its numeric check accepts the record and stores the
  number 0 in that field.
\<close>

theorem numeric_checks_blank_is_zero:
  assumes "list_all isWhiteSpace s"
  shows "(obj ''responseSize'' = Some (Str s) \<longrightarrow>
           checkResponseSize L obj = Inr (obj(''responseSize'' \<mapsto> Num (Finite 0))))
       \<and> (obj ''processTime'' = Some (Str s) \<longrightarrow>
           checkProcessTime L obj = Inr (obj(''processTime'' \<mapsto> Num (Finite 0))))"
  using assms
  by (simp add: checkResponseSize_def checkProcessTime_def ToNumber_def isNaN_def
      StringToNumber_blank)

theorem numeric_checks_blank_is_zero_witness:
  "list_all isWhiteSpace '' ''
   \<and> checkResponseSize sampleLib blankRecord
       = Inr (blankRecord(''responseSize'' \<mapsto> Num (Finite 0)))
   \<and> checkProcessTime sampleLib blankRecord
       = Inr (blankRecord(''processTime'' \<mapsto> Num (Finite 0)))"
proof -
  have b: "list_all isWhiteSpace '' ''"
    by (simp add: isWhiteSpace_def codeUnit_def)
  have r: "blankRecord ''responseSize'' = Some (Str '' '')"
    and p: "blankRecord ''processTime'' = Some (Str '' '')"
    by (simp_all add: blankRecord_def)
  show ?thesis
    using b r p numeric_checks_blank_is_zero [OF b, of blankRecord sampleLib] by simp
qed

subsection \<open>The method check\<close>

lemma toUpperCase_get: "toUpperCase L ''get'' = ''GET''"
  by (simp add: toUpperCase_def upperChar_def codeUnit_def)

lemma toUpperCase_dash: "toUpperCase L ''-'' = ''-''"
  by (simp add: toUpperCase_def upperChar_def codeUnit_def)

text \<open>
  C9 (as amended). Method validation is case-insensitive. A record whose method, in upper
  case, is a member of \<open>VALID_HTTP_METHODS\<close> (the nine HTTP methods and \<open>-\<close>) is accepted
  by the method check, and the stored method is the upper-case form, except that \<open>-\<close> is
  stored as \<open>null\<close>; \<open>get\<close> is stored as \<open>GET\<close>. A record is rejected by the check exactly
  when its upper-case method is outside that list.
\<close>

theorem checkValidMethod_case_insensitive:
  assumes "obj ''method'' = Some (Str m)"
  shows "(toUpperCase L m \<in> set VALID_HTTP_METHODS \<longrightarrow>
            checkValidMethod L obj =
              Inr (obj(''method'' \<mapsto>
                     (if toUpperCase L m = ''-'' then Null else Str (toUpperCase L m)))))
       \<and> (toUpperCase L m \<notin> set VALID_HTTP_METHODS \<longrightarrow>
            checkValidMethod L obj = Inl (Error (''Invalid HTTP method: '' @ toUpperCase L m)))
       \<and> (m = ''get'' \<longrightarrow> checkValidMethod L obj = Inr (obj(''method'' \<mapsto> Str ''GET'')))"
proof -
  have r: "receiver ''method'' ''toUpperCase'' (obj ''method'') = Inr m"
    using assms by (simp add: receiver_def)
  have g: "''GET'' \<in> set VALID_HTTP_METHODS"
    by (simp add: VALID_HTTP_METHODS_def)
  show ?thesis
    using g by (simp add: checkValidMethod_def r Let_def toUpperCase_get)
qed

theorem checkValidMethod_case_insensitive_witness:
  "goodRecord ''method'' = Some (Str ''get'')
   \<and> toUpperCase sampleLib ''get'' \<in> set VALID_HTTP_METHODS
   \<and> checkValidMethod sampleLib goodRecord = Inr (goodRecord(''method'' \<mapsto> Str ''GET''))"
proof -
  have m: "goodRecord ''method'' = Some (Str ''get'')"
    by (simp add: goodRecord_def)
  have v: "toUpperCase sampleLib ''get'' \<in> set VALID_HTTP_METHODS"
    by (simp add: toUpperCase_get VALID_HTTP_METHODS_def)
  show ?thesis
    using m v checkValidMethod_case_insensitive
        [where obj = goodRecord and m = "''get''" and L = sampleLib]
    by (simp add: toUpperCase_get)
qed

text \<open>
  C9 as stated fails for the method \<open>-\<close>: it is a member of the list, the record is accepted,
  and the stored method is \<open>null\<close>, not the upper-case form \<open>-\<close>.
\<close>

theorem checkValidMethod_dash_counterexample:
  "dashRecord ''method'' = Some (Str ''-'')
   \<and> toUpperCase sampleLib ''-'' \<in> set VALID_HTTP_METHODS
   \<and> checkValidMethod sampleLib dashRecord = Inr (dashRecord(''method'' \<mapsto> Null))
   \<and> checkValidMethod sampleLib dashRecord
       \<noteq> Inr (dashRecord(''method'' \<mapsto> Str (toUpperCase sampleLib ''-'')))"
proof -
  have r: "receiver ''method'' ''toUpperCase'' (dashRecord ''method'') = Inr ''-''"
    by (simp add: receiver_def dashRecord_def)
  have c: "checkValidMethod sampleLib dashRecord = Inr (dashRecord(''method'' \<mapsto> Null))"
    by (simp add: checkValidMethod_def r toUpperCase_dash VALID_HTTP_METHODS_def)
  have n: "dashRecord(''method'' \<mapsto> Null) \<noteq> dashRecord(''method'' \<mapsto> Str ''-'')"
    by (auto dest: fun_upd_eqD)
  show ?thesis
    using c n by (simp add: toUpperCase_dash VALID_HTTP_METHODS_def dashRecord_def)
qed

subsection \<open>Evaluation on the sample platform\<close>

lemma receiver_Str: "v = Some (Str s) \<Longrightarrow> receiver f m v = Inr s"
  by (simp add: receiver_def)

lemma decodeURI_plain: "CHR ''%'' \<notin> set s \<Longrightarrow> decodeURI L s = Some s"
  by (simp add: decodeURI_def)

lemma StringToNumber_abc: "StringToNumber L ''abc'' = NaN"
  by (simp add: StringToNumber_def trim_def isWhiteSpace_def codeUnit_def
      NonDecimalIntegerLiteral_def StrDecimalLiteral_def unsignedLiteral_def
      StrUnsignedDecimalLiteral_def isDigitOf_def isHexDigit_def digitValue_def)

lemma trim_nonblank: "s \<noteq> [] \<Longrightarrow> \<not> isWhiteSpace (hd s) \<Longrightarrow> trim s \<noteq> []"
  by (cases s) (auto simp: trim_def)

lemma sample_512: "StringToNumber sampleLib ''512'' = Finite 512"
  by (simp add: StringToNumber_def trim_def isWhiteSpace_def codeUnit_def
      NonDecimalIntegerLiteral_def StrDecimalLiteral_def unsignedLiteral_def
      StrUnsignedDecimalLiteral_def isDigitOf_def isHexDigit_def digitValue_def
      isDigits_def digitsValue_def optExponent_def roundNumber_def sampleLib_def)

lemma sample_200: "StringToNumber sampleLib ''200'' = Finite 200"
  by (simp add: StringToNumber_def trim_def isWhiteSpace_def codeUnit_def
      NonDecimalIntegerLiteral_def StrDecimalLiteral_def unsignedLiteral_def
      StrUnsignedDecimalLiteral_def isDigitOf_def isHexDigit_def digitValue_def
      isDigits_def digitsValue_def optExponent_def roundNumber_def sampleLib_def)

lemma sample_12: "StringToNumber sampleLib ''12'' = Finite 12"
  by (simp add: StringToNumber_def trim_def isWhiteSpace_def codeUnit_def
      NonDecimalIntegerLiteral_def StrDecimalLiteral_def unsignedLiteral_def
      StrUnsignedDecimalLiteral_def isDigitOf_def isHexDigit_def digitValue_def
      isDigits_def digitsValue_def optExponent_def roundNumber_def sampleLib_def)

lemma sample_blank: "StringToNumber L '' '' = Finite 0"
  by (simp add: StringToNumber_def trim_def isWhiteSpace_def codeUnit_def)

lemma includes200: "includesStatus (Finite 200)"
  by (simp add: includesStatus_def VALID_HTTP_STATUSES_def)

lemma sample_platform:
  "isIP sampleLib ''127.0.0.1'' = 4"
  "Date_parse sampleLib ''2024-01-01T00:00:00Z'' = Some 1704067200000"
  by (simp_all add: sampleLib_def)

lemma sample_agent:
  "isbot sampleLib ''Googlebot/2.1''"
  "UAParser sampleLib ''Googlebot/2.1'' =
     \<lparr>browser_name = None, os_name = Some ''Android'', os_version = Some ''14'',
      device_type = Some ''mobile''\<rparr>"
  by (simp_all add: sampleLib_def)

lemma goodLine_parse: "gracefulParse sampleLib (fixEscaping goodLine) = Inr goodJson"
proof -
  have "fixEscaping goodLine = goodLine"
    by (simp add: goodLine_def)
  moreover have "JSON_parse sampleLib goodLine = Some goodJson"
    by (simp add: sampleLib_def)
  ultimately show ?thesis
    by (simp add: gracefulParse_def)
qed

lemma goodJson_strings: "checkFieldsAreStrings goodJson = Inr goodRecord"
  by (simp add: checkFieldsAreStrings_def Object_entries_def goodJson_def goodRecord_def)

lemma goodRecord_chain: "chain (validators sampleLib) goodRecord = Inr goodEntry"
  by (simp add: validators_def goodRecord_def checkValidIP_def checkValidTime_def
      checkValidMethod_def checkPathQuery_def checkStatus_def checkResponseSize_def
      checkProcessTime_def trimReferer_def trimUser_def checkCountry_def
      decomposeUserAgent_def falsy_def orNull_def osString_def deviceTypeOf_def
      ToString_def ToNumber_def NewDate_def receiver_def
      toUpperCase_def upperChar_def codeUnit_def decodeURI_def isNaN_def
      VALID_HTTP_METHODS_def MAX_PATH_QUERY_LENGTH_def MAX_COUNTRY_LENGTH_def
      sample_12 sample_200 sample_blank includes200 sample_agent
      Let_def sample_platform goodEntry_def fun_upd_twist)

lemma pipeline_goodLine: "pipeline sampleLib goodLine = Inr goodEntry"
  by (simp add: pipeline_def goodLine_parse goodJson_strings goodRecord_chain)

lemma badTimeLine_parse: "gracefulParse sampleLib (fixEscaping badTimeLine) = Inr badTimeJson"
proof -
  have "fixEscaping badTimeLine = badTimeLine"
    by (simp add: badTimeLine_def)
  moreover have "JSON_parse sampleLib badTimeLine = Some badTimeJson"
    by (simp add: sampleLib_def badTimeLine_def goodLine_def)
  ultimately show ?thesis
    by (simp add: gracefulParse_def)
qed

lemma badTimeJson_strings:
  "checkFieldsAreStrings badTimeJson = Inr (goodRecord(''responseSize'' \<mapsto> Str ''512'', ''processTime'' \<mapsto> Str ''abc''))"
  by (auto simp add: checkFieldsAreStrings_def Object_entries_def badTimeJson_def goodRecord_def)

lemma badTime_chain:
  "chain (validators sampleLib) (goodRecord(''responseSize'' \<mapsto> Str ''512'', ''processTime'' \<mapsto> Str ''abc''))
     = Inl (Error ''Invalid response size: abc'')"
  by (simp add: validators_def goodRecord_def checkValidIP_def checkValidTime_def
      checkValidMethod_def checkPathQuery_def checkStatus_def checkResponseSize_def
      checkProcessTime_def ToString_def ToNumber_def NewDate_def receiver_def
      toUpperCase_def upperChar_def codeUnit_def decodeURI_def isNaN_def
      VALID_HTTP_METHODS_def MAX_PATH_QUERY_LENGTH_def sample_512 sample_200 includes200
      StringToNumber_abc Let_def sample_platform)

subsection \<open>The message of the process-time check\<close>

text \<open>
  C4. A line whose \<open>processTime\<close> is not a number is rejected, and the error message of
  its failed entry is the one of the response-size check: on \<open>badTimeLine\<close>, whose process
  time is \<open>abc\<close>, it reads \<open>Invalid response size: abc\<close>.
\<close>

theorem processTime_message:
  "loadLines sampleLib [badTimeLine] ([], [])
     = ([], [\<lparr>error = ''Invalid response size: abc'', line = badTimeLine\<rparr>])"
proof -
  have "trim badTimeLine \<noteq> []"
    by (rule trim_nonblank) (simp_all add: badTimeLine_def isWhiteSpace_def codeUnit_def)
  moreover have "pipeline sampleLib badTimeLine = Inl (Error ''Invalid response size: abc'')"
    by (simp add: pipeline_def badTimeLine_parse badTimeJson_strings badTime_chain)
  ultimately show ?thesis
    by (simp add: errorText_def)
qed

subsection \<open>The user-agent classifier\<close>

text \<open>
  C8. For a user agent that is a string other than the empty string and \<open>-\<close>, the
  classifier succeeds, \<open>bot\<close> is what the bot heuristic says, and \<open>deviceType\<close> is
  \<open>unknown\<close> when it says bot, whatever the parser reports; otherwise it is the parsed
  device type, or \<open>other\<close> when the parser has none.
\<close>

theorem decomposeUserAgent_bot:
  assumes "obj ''userAgent'' = Some (Str ua)" and "ua \<noteq> []" and "ua \<noteq> ''-''"
  shows "case decomposeUserAgent L obj of
           Inl e \<Rightarrow> False
         | Inr r \<Rightarrow>
             r ''bot'' = Some (Bool (isbot L ua))
             \<and> r ''deviceType'' =
                 Some (Str (if isbot L ua then ''unknown''
                            else case device_type (UAParser L ua) of
                                   None \<Rightarrow> ''other''
                                 | Some t \<Rightarrow> if t = [] then ''other'' else t))"
  using assms
  by (simp add: decomposeUserAgent_def falsy_def receiver_Str Let_def deviceTypeOf_def)

theorem decomposeUserAgent_bot_witness:
  "goodRecord ''userAgent'' = Some (Str ''Googlebot/2.1'')
   \<and> isbot sampleLib ''Googlebot/2.1''
   \<and> device_type (UAParser sampleLib ''Googlebot/2.1'') = Some ''mobile''
   \<and> (case decomposeUserAgent sampleLib goodRecord of
         Inl e \<Rightarrow> False
       | Inr r \<Rightarrow> r ''bot'' = Some (Bool True) \<and> r ''deviceType'' = Some (Str ''unknown''))"
proof -
  have u: "goodRecord ''userAgent'' = Some (Str ''Googlebot/2.1'')"
    by (simp add: goodRecord_def)
  have b: "isbot sampleLib ''Googlebot/2.1''"
    and d: "device_type (UAParser sampleLib ''Googlebot/2.1'') = Some ''mobile''"
    by (simp_all add: sampleLib_def)
  show ?thesis
    using u b d decomposeUserAgent_bot
      [where obj = goodRecord and ua = "''Googlebot/2.1''" and L = sampleLib]
    by (simp split: sum.splits)
qed

subsection \<open>Sentinel values\<close>

lemma chain_preserves:
  "\<forall>f \<in> set fs. \<forall>x y. f x = Inr y \<longrightarrow> P x \<longrightarrow> P y \<Longrightarrow>
   chain fs x = Inr y \<Longrightarrow> P x \<Longrightarrow> P y"
proof (induction fs arbitrary: x)
  case Nil
  then show ?case by simp
next
  case (Cons f fs)
  from Cons.prems(2) obtain z where fz: "f x = Inr z" and rest: "chain fs z = Inr y"
    by (auto split: sum.splits)
  from fz Cons.prems(1,3) have "P z"
    by auto
  with Cons.IH [OF _ rest] Cons.prems(1) show ?case
    by simp
qed

lemma strings_not_Null:
  "find notString kvs = None \<Longrightarrow> map_of (map stringEntry kvs) k \<noteq> Some Null"
proof (induction kvs)
  case Nil
  then show ?case by simp
next
  case (Cons kv kvs)
  obtain k' v where kv: "kv = (k', v)" by (cases kv)
  from Cons.prems kv have "\<not> notString (k', v)" and "find notString kvs = None"
    by (auto split: if_splits)
  then show ?case
    using Cons.IH kv by (cases v) auto
qed

lemma neverAbsent_validators:
  assumes "f \<in> set (validators L)" and "f obj = Inr r" and "neverAbsent obj"
  shows "neverAbsent r"
  using assms
  by (auto simp: validators_def neverAbsent_def checkValidIP_def checkValidTime_def
      checkValidMethod_def checkPathQuery_def checkStatus_def checkResponseSize_def
      checkProcessTime_def trimReferer_def trimUser_def checkCountry_def
      decomposeUserAgent_def Let_def
      split: if_splits sum.splits option.splits)

lemma pipeline_neverAbsent:
  assumes "pipeline L l = Inr e"
  shows "neverAbsent e"
proof -
  from assms obtain j obj where
    "checkFieldsAreStrings j = Inr obj" and c: "chain (validators L) obj = Inr e"
    by (auto simp: pipeline_def split: sum.splits)
  then have "neverAbsent obj"
    by (auto simp: checkFieldsAreStrings_def neverAbsent_def strings_not_Null
        split: sum.splits option.splits)
  with c show ?thesis
    using chain_preserves [where P = neverAbsent and fs = "validators L"]
      neverAbsent_validators by blast
qed

text \<open>
  C7 (as amended). A method \<open>-\<close>, a user \<open>-\<close>, a path \<open>-\<close> and a country \<open>-\<close> become
  \<open>null\<close>, and so does an empty query, in every record that passes the validator; the
  user agent becomes \<open>null\<close> too, for \<open>-\<close> and for the empty string. No other field of the
  line is mapped to \<open>null\<close>: in an accepted entry the host, the time, the status, the
  response size, the process time and the referer are never \<open>null\<close>.
\<close>

theorem sentinels_normalize_to_absent:
  "(obj ''method'' = Some (Str ''-'') \<longrightarrow>
      checkValidMethod L obj = Inr (obj(''method'' \<mapsto> Null)))
   \<and> (obj ''user'' = Some (Str ''-'') \<longrightarrow> trimUser L obj = Inr (obj(''user'' \<mapsto> Null)))
   \<and> (obj ''path'' = Some (Str ''-'') \<and> checkPathQuery L obj = Inr r \<longrightarrow>
        r ''path'' = Some Null)
   \<and> (obj ''query'' = Some (Str []) \<and> checkPathQuery L obj = Inr r \<longrightarrow>
        r ''query'' = Some Null)
   \<and> (obj ''country'' = Some (Str ''-'') \<longrightarrow>
        checkCountry L obj = Inr (obj(''country'' \<mapsto> Null)))
   \<and> (obj ''userAgent'' = Some (Str ''-'') \<or> obj ''userAgent'' = Some (Str []) \<longrightarrow>
        (case decomposeUserAgent L obj of
           Inl x \<Rightarrow> False
         | Inr r' \<Rightarrow> r' ''userAgent'' = Some Null))
   \<and> (pipeline L l = Inr e \<longrightarrow> neverAbsent e)"
proof -
  have m: "obj ''method'' = Some (Str ''-'') \<longrightarrow>
      checkValidMethod L obj = Inr (obj(''method'' \<mapsto> Null))"
    by (simp add: checkValidMethod_def receiver_Str toUpperCase_dash VALID_HTTP_METHODS_def)
  have u: "obj ''user'' = Some (Str ''-'') \<longrightarrow> trimUser L obj = Inr (obj(''user'' \<mapsto> Null))"
    by (simp add: trimUser_def receiver_Str MAX_PATH_QUERY_LENGTH_def)
  have p: "obj ''path'' = Some (Str ''-'') \<and> checkPathQuery L obj = Inr r \<longrightarrow>
        r ''path'' = Some Null"
    by (auto simp: checkPathQuery_def ToString_def decodeURI_plain MAX_PATH_QUERY_LENGTH_def
        Let_def split: option.splits)
  have q: "obj ''query'' = Some (Str []) \<and> checkPathQuery L obj = Inr r \<longrightarrow>
        r ''query'' = Some Null"
    by (auto simp: checkPathQuery_def ToString_def decodeURI_plain MAX_PATH_QUERY_LENGTH_def
        Let_def split: option.splits)
  have c: "obj ''country'' = Some (Str ''-'') \<longrightarrow>
        checkCountry L obj = Inr (obj(''country'' \<mapsto> Null))"
    by (simp add: checkCountry_def)
  have a: "obj ''userAgent'' = Some (Str ''-'') \<or> obj ''userAgent'' = Some (Str []) \<longrightarrow>
        (case decomposeUserAgent L obj of
           Inl x \<Rightarrow> False
         | Inr r' \<Rightarrow> r' ''userAgent'' = Some Null)"
    by (auto simp: decomposeUserAgent_def falsy_def)
  have n: "pipeline L l = Inr e \<longrightarrow> neverAbsent e"
    by (simp add: pipeline_neverAbsent)
  from m u p q c a n show ?thesis
    by blast
qed

lemma checkPathQuery_sentinel:
  "checkPathQuery sampleLib sentinelRecord
     = Inr (sentinelRecord(''path'' \<mapsto> Null, ''query'' \<mapsto> Null))"
  by (simp add: checkPathQuery_def sentinelRecord_def goodRecord_def ToString_def
      decodeURI_plain MAX_PATH_QUERY_LENGTH_def Let_def)

theorem sentinels_normalize_to_absent_witness:
  "sentinelRecord ''method'' = Some (Str ''-'')
   \<and> checkValidMethod sampleLib sentinelRecord = Inr (sentinelRecord(''method'' \<mapsto> Null))
   \<and> sentinelRecord ''user'' = Some (Str ''-'')
   \<and> trimUser sampleLib sentinelRecord = Inr (sentinelRecord(''user'' \<mapsto> Null))
   \<and> sentinelRecord ''path'' = Some (Str ''-'')
   \<and> sentinelRecord ''query'' = Some (Str [])
   \<and> checkPathQuery sampleLib sentinelRecord
       = Inr (sentinelRecord(''path'' \<mapsto> Null, ''query'' \<mapsto> Null))
   \<and> sentinelRecord ''country'' = Some (Str ''-'')
   \<and> checkCountry sampleLib sentinelRecord = Inr (sentinelRecord(''country'' \<mapsto> Null))
   \<and> sentinelRecord ''userAgent'' = Some (Str ''-'')
   \<and> (case decomposeUserAgent sampleLib sentinelRecord of
         Inl x \<Rightarrow> False
       | Inr r' \<Rightarrow> r' ''userAgent'' = Some Null)
   \<and> pipeline sampleLib goodLine = Inr goodEntry
   \<and> neverAbsent goodEntry"
proof -
  have f: "sentinelRecord ''method'' = Some (Str ''-'')"
    "sentinelRecord ''user'' = Some (Str ''-'')"
    "sentinelRecord ''path'' = Some (Str ''-'')"
    "sentinelRecord ''query'' = Some (Str [])"
    "sentinelRecord ''country'' = Some (Str ''-'')"
    "sentinelRecord ''userAgent'' = Some (Str ''-'')"
    by (simp_all add: sentinelRecord_def goodRecord_def)
  show ?thesis
    using f checkPathQuery_sentinel pipeline_goodLine
      sentinels_normalize_to_absent
        [where obj = sentinelRecord and L = sampleLib and l = goodLine and e = goodEntry
           and r = "sentinelRecord(''path'' \<mapsto> Null, ''query'' \<mapsto> Null)"]
    by simp
qed

text \<open>
  C7 as stated fails in its last part: the user agent is one more field with a sentinel,
  \<open>-\<close> is stored as \<open>null\<close>.
\<close>

theorem userAgent_dash_counterexample:
  "dashAgentRecord ''userAgent'' = Some (Str ''-'')
   \<and> (case decomposeUserAgent sampleLib dashAgentRecord of
         Inl x \<Rightarrow> False
       | Inr r \<Rightarrow> r ''userAgent'' = Some Null)"
  by (simp add: dashAgentRecord_def decomposeUserAgent_def)

subsection \<open>The batch loader\<close>

lemma chunksOf_Nil: "chunksOf n [] = []"
  by (simp add: chunksOf.simps)

lemma chunksOf_step:
  "0 < n \<Longrightarrow> xs \<noteq> [] \<Longrightarrow> chunksOf n xs = take n xs # chunksOf n (drop n xs)"
  by (subst chunksOf.simps) simp

lemma concat_chunksOf: "0 < n \<Longrightarrow> concat (chunksOf n xs) = xs"
proof (induction n xs rule: chunksOf.induct)
  case (1 n xs)
  show ?case
  proof (cases "xs = []")
    case True
    then show ?thesis by (simp add: chunksOf_Nil)
  next
    case False
    with 1 show ?thesis by (simp add: chunksOf_step)
  qed
qed

lemma length_chunksOf: "0 < n \<Longrightarrow> length (chunksOf n xs) = (length xs + n - 1) div n"
proof (induction n xs rule: chunksOf.induct)
  case (1 n xs)
  show ?case
  proof (cases "xs = []")
    case True
    then show ?thesis using 1(2) by (simp add: chunksOf_Nil)
  next
    case False
    then have len: "0 < length xs" by simp
    have unfold: "chunksOf n xs = take n xs # chunksOf n (drop n xs)"
      using 1(2) False by (rule chunksOf_step)
    have ih: "length (chunksOf n (drop n xs)) = (length xs - n + n - 1) div n"
      using 1(1) 1(2) False by simp
    have "(length xs + n - 1) div n = Suc ((length xs - n + n - 1) div n)"
    proof (cases "length xs \<le> n")
      case True
      have "n \<le> length xs + n - 1" and "length xs + n - 1 < n + n"
        using len True 1(2) by linarith+
      then have "(length xs + n - 1) div n = 1"
        by (intro div_nat_eqI) simp_all
      moreover have "(length xs - n + n - 1) div n = 0"
        using True 1(2) by simp
      ultimately show ?thesis by simp
    next
      case False
      then have "length xs + n - 1 = (length xs - 1) + n"
        and "length xs - n + n - 1 = length xs - 1"
        by linarith+
      moreover have "(length xs - 1 + n) div n = Suc ((length xs - 1) div n)"
        using 1(2) by simp
      ultimately show ?thesis by presburger
    qed
    with unfold ih show ?thesis by simp
  qed
qed

lemma chunksOf_sizes: "0 < n \<Longrightarrow> c \<in> set (chunksOf n xs) \<Longrightarrow> 0 < length c \<and> length c \<le> n"
proof (induction n xs rule: chunksOf.induct)
  case (1 n xs)
  show ?case
  proof (cases "xs = []")
    case True
    with 1(3) show ?thesis by (simp add: chunksOf_Nil)
  next
    case False
    with 1 show ?thesis by (auto simp: chunksOf_step)
  qed
qed

lemma insertLoop_issue:
  "insertLoop W entries start tr
     = issue W (chunksOf CHUNK_SIZE (map rowOf (drop start entries))) tr"
proof (induction W entries start tr rule: insertLoop.induct)
  case (1 W entries start tr)
  show ?case
  proof (cases "start < length entries")
    case False
    then show ?thesis
      by (subst insertLoop.simps) (simp add: chunksOf_Nil)
  next
    case True
    then have ne: "map rowOf (drop start entries) \<noteq> []"
      by simp
    have pos: "0 < CHUNK_SIZE"
      by (simp add: CHUNK_SIZE_def)
    have step: "chunksOf CHUNK_SIZE (map rowOf (drop start entries))
        = map rowOf (take CHUNK_SIZE (drop start entries))
          # chunksOf CHUNK_SIZE (map rowOf (drop (start + CHUNK_SIZE) entries))"
      by (simp add: chunksOf_step [OF pos ne] take_map drop_map add.commute)
    show ?thesis
    proof (cases "queryError W tr (map rowOf (take CHUNK_SIZE (drop start entries)))")
      case None
      with True 1 show ?thesis
        by (subst insertLoop.simps) (simp add: step)
    next
      case (Some e)
      with True show ?thesis
        by (subst insertLoop.simps) (simp add: step)
    qed
  qed
qed

lemma issue_all_succeed:
  "(\<forall>j<length cs. queryError W (tr @ map PoolQuery (take j cs)) (cs ! j) = None)
   \<Longrightarrow> issue W cs tr = (tr @ map PoolQuery cs, None)"
proof (induction cs arbitrary: tr)
  case Nil
  then show ?case by simp
next
  case (Cons c cs)
  from Cons.prems have first: "queryError W tr c = None"
    by force
  have "\<forall>j<length cs. queryError W ((tr @ [PoolQuery c]) @ map PoolQuery (take j cs)) (cs ! j) = None"
  proof (intro allI impI)
    fix j assume "j < length cs"
    then show "queryError W ((tr @ [PoolQuery c]) @ map PoolQuery (take j cs)) (cs ! j) = None"
      using Cons.prems [rule_format, of "Suc j"] by simp
  qed
  from Cons.IH [OF this] first show ?case
    by simp
qed

lemma issue_first_failure:
  "k < length cs \<Longrightarrow>
   (\<forall>j<k. queryError W (tr @ map PoolQuery (take j cs)) (cs ! j) = None) \<Longrightarrow>
   queryError W (tr @ map PoolQuery (take k cs)) (cs ! k) = Some e \<Longrightarrow>
   issue W cs tr = (tr @ map PoolQuery (take (Suc k) cs), Some e)"
proof (induction cs arbitrary: tr k)
  case Nil
  then show ?case by simp
next
  case (Cons c cs)
  show ?case
  proof (cases k)
    case 0
    with Cons.prems show ?thesis by simp
  next
    case (Suc k')
    from Cons.prems(2) Suc have first: "queryError W tr c = None"
      by force
    have len: "k' < length cs"
      using Cons.prems(1) Suc by simp
    have before: "\<forall>j<k'. queryError W ((tr @ [PoolQuery c]) @ map PoolQuery (take j cs)) (cs ! j) = None"
    proof (intro allI impI)
      fix j assume "j < k'"
      then show "queryError W ((tr @ [PoolQuery c]) @ map PoolQuery (take j cs)) (cs ! j) = None"
        using Cons.prems(2) [rule_format, of "Suc j"] Suc by simp
    qed
    have at: "queryError W ((tr @ [PoolQuery c]) @ map PoolQuery (take k' cs)) (cs ! k') = Some e"
      using Cons.prems(3) Suc by simp
    from Cons.IH [OF len before at] first Suc show ?thesis
      by simp
  qed
qed

lemma insertEntries_issue:
  "insertEntries W tr entries =
     (case issue W (chunksOf 20000 (map rowOf entries)) (tr @ [CreatePool]) of
        (tr1, Some e) \<Rightarrow> (tr1, Inl e)
      | (tr1, None) \<Rightarrow>
          (tr1 @ [PoolEnd], case endError W of None \<Rightarrow> Inr () | Some e \<Rightarrow> Inl e))"
  by (simp add: insertEntries_def insertLoop_issue CHUNK_SIZE_def
      split: prod.splits option.splits)

lemma insertEntries_all_succeed:
  assumes "\<forall>j<length cs. queryError W (tr @ CreatePool # map PoolQuery (take j cs)) (cs ! j) = None"
    and "cs = chunksOf 20000 (map rowOf entries)"
  shows "insertEntries W tr entries =
     (tr @ CreatePool # map PoolQuery cs @ [PoolEnd],
      case endError W of None \<Rightarrow> Inr () | Some e \<Rightarrow> Inl e)"
proof -
  have "issue W cs (tr @ [CreatePool]) = ((tr @ [CreatePool]) @ map PoolQuery cs, None)"
    by (rule issue_all_succeed) (use assms(1) in simp)
  then show ?thesis
    by (simp add: insertEntries_issue assms(2))
qed

lemma insertEntries_first_failure:
  assumes "k < length cs"
    and "\<forall>j<k. queryError W (tr @ CreatePool # map PoolQuery (take j cs)) (cs ! j) = None"
    and "queryError W (tr @ CreatePool # map PoolQuery (take k cs)) (cs ! k) = Some e"
    and "cs = chunksOf 20000 (map rowOf entries)"
  shows "insertEntries W tr entries = (tr @ CreatePool # map PoolQuery (take (Suc k) cs), Inl e)"
proof -
  have "issue W cs (tr @ [CreatePool])
      = ((tr @ [CreatePool]) @ map PoolQuery (take (Suc k) cs), Some e)"
    by (rule issue_first_failure) (use assms(1-3) in simp_all)
  then show ?thesis
    by (simp add: insertEntries_issue assms(4))
qed

lemma calmWorld_quiet:
  "queryError calmWorld tr rows = None"
  "endError calmWorld = None"
  "sendError calmWorld tr content = None"
  "readError calmWorld = None"
  "copyError calmWorld = None"
  "truncateError calmWorld = None"
  by (simp_all add: calmWorld_def)

lemma brokenStore_fails:
  "queryError brokenStore tr rows = Some (Error ''Connection lost'')"
  by (simp add: brokenStore_def)

lemma three_chunks: "length (chunksOf 20000 (map rowOf (replicate 45000 goodEntry))) = 3"
  using length_chunksOf [of 20000 "map rowOf (replicate 45000 goodEntry)"] by simp

lemma chunks_nonempty: "chunksOf 20000 (map rowOf (replicate 45000 goodEntry)) \<noteq> []"
  using three_chunks by auto

text \<open>
  C5. For \<open>N\<close> accepted entries the rows fall into \<open>ceil(N / 20000)\<close> consecutive chunks
  of at most 20000 rows, which together are all the rows in their order. The loader
  issues one query per chunk, in that order: all of them when none is rejected, and when
  the query of chunk \<open>k\<close> is the first to be rejected, the queries of the chunks up to
  \<open>k\<close> and no later one, and the error is passed on to the caller.
\<close>

theorem insertEntries_chunks:
  fixes W :: world and tr :: "event list" and entries :: "object list"
  defines "cs \<equiv> chunksOf 20000 (map rowOf entries)"
  defines "hist \<equiv> \<lambda>j. tr @ CreatePool # map PoolQuery (take j cs)"
  shows "length cs = (length entries + 19999) div 20000
       \<and> concat cs = map rowOf entries
       \<and> (\<forall>c \<in> set cs. 0 < length c \<and> length c \<le> 20000)
       \<and> ((\<forall>j<length cs. queryError W (hist j) (cs ! j) = None) \<longrightarrow>
            insertEntries W tr entries =
              (hist (length cs) @ [PoolEnd],
               case endError W of None \<Rightarrow> Inr () | Some e \<Rightarrow> Inl e))
       \<and> (\<forall>k e. k < length cs
                 \<and> (\<forall>j<k. queryError W (hist j) (cs ! j) = None)
                 \<and> queryError W (hist k) (cs ! k) = Some e \<longrightarrow>
               insertEntries W tr entries = (hist (Suc k), Inl e))"
proof -
  have a: "length cs = (length entries + 19999) div 20000"
    using length_chunksOf [of 20000 "map rowOf entries"] by (simp add: cs_def)
  have b: "concat cs = map rowOf entries"
    by (simp add: cs_def concat_chunksOf)
  have c: "\<forall>c \<in> set cs. 0 < length c \<and> length c \<le> 20000"
    using chunksOf_sizes [of 20000 _ "map rowOf entries"] by (auto simp: cs_def)
  have d: "(\<forall>j<length cs. queryError W (hist j) (cs ! j) = None) \<longrightarrow>
            insertEntries W tr entries =
              (hist (length cs) @ [PoolEnd],
               case endError W of None \<Rightarrow> Inr () | Some e \<Rightarrow> Inl e)"
    using insertEntries_all_succeed [of cs W tr entries] by (simp add: hist_def cs_def)
  have e: "\<forall>k e. k < length cs
                 \<and> (\<forall>j<k. queryError W (hist j) (cs ! j) = None)
                 \<and> queryError W (hist k) (cs ! k) = Some e \<longrightarrow>
               insertEntries W tr entries = (hist (Suc k), Inl e)"
    using insertEntries_first_failure [of _ cs W tr _ entries] by (simp add: hist_def cs_def)
  from a b c d e show ?thesis
    by blast
qed

theorem insertEntries_chunks_witness:
  "length (chunksOf 20000 (map rowOf (replicate 45000 goodEntry))) = 3
   \<and> insertEntries calmWorld [] (replicate 45000 goodEntry) =
       (CreatePool # map PoolQuery (chunksOf 20000 (map rowOf (replicate 45000 goodEntry)))
          @ [PoolEnd], Inr ())
   \<and> insertEntries brokenStore [] (replicate 45000 goodEntry) =
       (CreatePool
          # map PoolQuery (take 1 (chunksOf 20000 (map rowOf (replicate 45000 goodEntry)))),
        Inl (Error ''Connection lost''))"
proof -
  have calm: "insertEntries calmWorld [] (replicate 45000 goodEntry) =
       (CreatePool # map PoolQuery (chunksOf 20000 (map rowOf (replicate 45000 goodEntry)))
          @ [PoolEnd], Inr ())"
    using insertEntries_chunks [of "replicate 45000 goodEntry" calmWorld "[]"]
    by (simp add: calmWorld_quiet)
  have broken: "insertEntries brokenStore [] (replicate 45000 goodEntry) =
       (CreatePool
          # map PoolQuery (take 1 (chunksOf 20000 (map rowOf (replicate 45000 goodEntry)))),
        Inl (Error ''Connection lost''))"
    using insertEntries_chunks [of "replicate 45000 goodEntry" brokenStore "[]",
        THEN conjunct2, THEN conjunct2, THEN conjunct2, THEN conjunct2, rule_format,
        of 0 "Error ''Connection lost''"] chunks_nonempty
    by (simp add: brokenStore_fails)
  from three_chunks calm broken show ?thesis
    by simp
qed

text \<open>
  C2 (as amended). When every chunk insert succeeds, the pool that \<open>insertEntries\<close>
  creates is closed once, after the last insert and before the load step returns. When a
  chunk insert fails, its error is passed on to the caller and \<open>insertEntries\<close> does not
  close the pool.
\<close>

theorem insertEntries_closes_pool:
  fixes W :: world and tr :: "event list" and entries :: "object list"
  defines "cs \<equiv> chunksOf 20000 (map rowOf entries)"
  defines "hist \<equiv> \<lambda>j. tr @ CreatePool # map PoolQuery (take j cs)"
  shows "((\<forall>j<length cs. queryError W (hist j) (cs ! j) = None) \<longrightarrow>
            fst (insertEntries W tr entries) = hist (length cs) @ [PoolEnd])
       \<and> (\<forall>k e. k < length cs
                 \<and> (\<forall>j<k. queryError W (hist j) (cs ! j) = None)
                 \<and> queryError W (hist k) (cs ! k) = Some e \<longrightarrow>
               snd (insertEntries W tr entries) = Inl e
               \<and> PoolEnd \<notin> set (drop (length tr) (fst (insertEntries W tr entries))))"
proof -
  have d: "(\<forall>j<length cs. queryError W (hist j) (cs ! j) = None) \<longrightarrow>
            fst (insertEntries W tr entries) = hist (length cs) @ [PoolEnd]"
    using insertEntries_all_succeed [of cs W tr entries] by (simp add: hist_def cs_def)
  have e: "\<forall>k e. k < length cs
                 \<and> (\<forall>j<k. queryError W (hist j) (cs ! j) = None)
                 \<and> queryError W (hist k) (cs ! k) = Some e \<longrightarrow>
               snd (insertEntries W tr entries) = Inl e
               \<and> PoolEnd \<notin> set (drop (length tr) (fst (insertEntries W tr entries)))"
  proof (intro allI impI)
    fix k e
    assume h: "k < length cs
                 \<and> (\<forall>j<k. queryError W (hist j) (cs ! j) = None)
                 \<and> queryError W (hist k) (cs ! k) = Some e"
    then have "insertEntries W tr entries
        = (tr @ CreatePool # map PoolQuery (take (Suc k) cs), Inl e)"
      using insertEntries_first_failure [of k cs W tr e entries] by (simp add: hist_def cs_def)
    then show "snd (insertEntries W tr entries) = Inl e
               \<and> PoolEnd \<notin> set (drop (length tr) (fst (insertEntries W tr entries)))"
      by auto
  qed
  from d e show ?thesis
    by blast
qed

theorem insertEntries_closes_pool_witness:
  "fst (insertEntries calmWorld [] (replicate 45000 goodEntry)) =
       CreatePool # map PoolQuery (chunksOf 20000 (map rowOf (replicate 45000 goodEntry)))
          @ [PoolEnd]
   \<and> snd (insertEntries brokenStore [] (replicate 45000 goodEntry))
       = Inl (Error ''Connection lost'')
   \<and> PoolEnd \<notin> set (fst (insertEntries brokenStore [] (replicate 45000 goodEntry)))"
proof -
  have calm: "fst (insertEntries calmWorld [] (replicate 45000 goodEntry)) =
       CreatePool # map PoolQuery (chunksOf 20000 (map rowOf (replicate 45000 goodEntry)))
          @ [PoolEnd]"
    using insertEntries_closes_pool [of "replicate 45000 goodEntry" calmWorld "[]"]
    by (simp add: calmWorld_quiet)
  have broken: "snd (insertEntries brokenStore [] (replicate 45000 goodEntry))
       = Inl (Error ''Connection lost'')
     \<and> PoolEnd \<notin> set (fst (insertEntries brokenStore [] (replicate 45000 goodEntry)))"
    using insertEntries_closes_pool [of "replicate 45000 goodEntry" brokenStore "[]",
        THEN conjunct2, rule_format, of 0 "Error ''Connection lost''"] chunks_nonempty
    by (simp add: brokenStore_fails)
  from calm broken show ?thesis
    by simp
qed

text \<open>
  C2 as stated fails when a chunk insert fails: with a store that rejects the query, the
  load of one entry ends with the error and without \<open>pool.end()\<close>.
\<close>

theorem insertEntries_failure_counterexample:
  "snd (insertEntries brokenStore [] [goodEntry]) = Inl (Error ''Connection lost'')
   \<and> PoolEnd \<notin> set (fst (insertEntries brokenStore [] [goodEntry]))"
proof -
  have "insertLoop brokenStore [goodEntry] 0 [CreatePool]
      = ([CreatePool, PoolQuery [rowOf goodEntry]], Some (Error ''Connection lost''))"
    by (subst insertLoop.simps) (simp add: brokenStore_def CHUNK_SIZE_def)
  then show ?thesis
    by (simp add: insertEntries_def)
qed

subsection \<open>The entry loader\<close>

lemma trim_empty_iff: "trim s = [] \<longleftrightarrow> list_all isWhiteSpace s"
proof
  assume "list_all isWhiteSpace s"
  then show "trim s = []" by (rule trim_blank)
next
  assume t: "trim s = []"
  show "list_all isWhiteSpace s"
  proof (rule ccontr)
    assume "\<not> list_all isWhiteSpace s"
    then have ne: "dropWhile isWhiteSpace s \<noteq> []"
      by (simp add: list_all_iff dropWhile_eq_Nil_conv)
    then have "\<not> isWhiteSpace (hd (dropWhile isWhiteSpace s))"
      by (rule hd_dropWhile)
    with ne have "trim s \<noteq> []"
      unfolding trim_def
      by (metis dropWhile_eq_Nil_conv hd_in_set rev_is_Nil_conv set_rev)
    with t show False by simp
  qed
qed

lemma loadLines_acc:
  "loadLines L ls (S, F) =
     (S @ map (\<lambda>l. projr (pipeline L l))
            (filter (\<lambda>l. \<not> isl (pipeline L l)) (filter (\<lambda>l. \<not> list_all isWhiteSpace l) ls)),
      F @ map (\<lambda>l. \<lparr>error = errorText (projl (pipeline L l)), line = l\<rparr>)
            (filter (\<lambda>l. isl (pipeline L l)) (filter (\<lambda>l. \<not> list_all isWhiteSpace l) ls)))"
proof (induction ls arbitrary: S F)
  case Nil
  then show ?case by simp
next
  case (Cons l ls)
  show ?case
  proof (cases "list_all isWhiteSpace l")
    case True
    then show ?thesis
      using Cons.IH by (simp add: trim_blank)
  next
    case False
    then have t: "trim l \<noteq> []"
      by (simp add: trim_empty_iff)
    show ?thesis
    proof (cases "pipeline L l")
      case (Inl e)
      with False t show ?thesis
        using Cons.IH by simp
    next
      case (Inr entry)
      with False t show ?thesis
        using Cons.IH by simp
    qed
  qed
qed

lemma pipeline_badTimeLine:
  "pipeline sampleLib badTimeLine = Inl (Error ''Invalid response size: abc'')"
  by (simp add: pipeline_def badTimeLine_parse badTimeJson_strings badTime_chain)

lemma sample_nonblank:
  "\<not> list_all isWhiteSpace goodLine"
  "\<not> list_all isWhiteSpace badTimeLine"
  "isWhiteSpace (CHR '' '')"
  by (simp_all add: goodLine_def badTimeLine_def isWhiteSpace_def codeUnit_def)

text \<open>
  C1. When the stream delivers all its lines, the loader returns two sequences. Taking the
  lines that are not blank (not made of white space only), in their order, the accepted
  sequence is the entries of those that the pipeline accepts and the rejected sequence is
  the failed entries of those that it rejects, so that every such line has one entry in
  exactly one of the two, blank lines have none, and the two lengths add up to the number
  of lines that are not blank.
\<close>

theorem loadEntries_partition:
  fixes L :: lib and W :: world and tr :: "event list"
  defines "nonBlank \<equiv> filter (\<lambda>l. \<not> list_all isWhiteSpace l) (sourceLines W)"
  defines "accepted \<equiv>
             map (\<lambda>l. projr (pipeline L l)) (filter (\<lambda>l. \<not> isl (pipeline L l)) nonBlank)"
  defines "rejected \<equiv>
             map (\<lambda>l. \<lparr>error = errorText (projl (pipeline L l)), line = l\<rparr>)
               (filter (\<lambda>l. isl (pipeline L l)) nonBlank)"
  assumes "readError W = None"
  shows "snd (loadEntries L W tr) = Inr (accepted, rejected)
       \<and> length accepted + length rejected = length nonBlank"
proof -
  have "snd (loadEntries L W tr) = Inr (accepted, rejected)"
    using assms(4)
    by (simp add: loadEntries_def loadLines_acc accepted_def rejected_def nonBlank_def)
  moreover have "length accepted + length rejected = length nonBlank"
    using sum_length_filter_compl [of "\<lambda>l. isl (pipeline L l)" nonBlank]
    by (simp add: accepted_def rejected_def)
  ultimately show ?thesis by simp
qed

theorem loadEntries_partition_witness:
  "readError calmWorld = None
   \<and> sourceLines calmWorld = [goodLine, ''  '', badTimeLine]
   \<and> snd (loadEntries sampleLib calmWorld [])
       = Inr ([goodEntry], [\<lparr>error = ''Invalid response size: abc'', line = badTimeLine\<rparr>])"
proof -
  have r: "readError calmWorld = None"
    and s: "sourceLines calmWorld = [goodLine, ''  '', badTimeLine]"
    by (simp_all add: calmWorld_def)
  show ?thesis
    using r loadEntries_partition [OF r, of sampleLib "[]"]
    by (simp add: s sample_nonblank pipeline_goodLine pipeline_badTimeLine errorText_def)
qed

subsection \<open>The report of the failed entries\<close>





subsection \<open>The order of the file operations\<close>

lemma isFileEvent_simps:
  "isFileEvent CopyFile" "isFileEvent OpenSource" "isFileEvent SourceEnd" "isFileEvent Truncate"
  "\<not> isFileEvent (ConsoleInfo m)" "\<not> isFileEvent (ConsoleError m e)"
  "\<not> isFileEvent (ConsoleDebug es)" "\<not> isFileEvent (WebhookSend m)"
  "\<not> isFileEvent WebhookDestroy" "\<not> isFileEvent CreatePool"
  "\<not> isFileEvent (PoolQuery rows)" "\<not> isFileEvent PoolEnd" "\<not> isFileEvent (Exit n)"
  by (simp_all add: isFileEvent_def)

lemma files_report: "filter isFileEvent (report W tr m) = filter isFileEvent tr"
  by (simp add: report_def Let_def isFileEvent_simps split: option.splits)

lemma files_reportFailedEntries:
  "filter isFileEvent (reportFailedEntries W tr es) = filter isFileEvent tr"
  by (simp add: reportFailedEntries_def Let_def files_report isFileEvent_simps)

lemma files_issue: "filter isFileEvent (fst (issue W cs tr)) = filter isFileEvent tr"
  by (induction cs arbitrary: tr) (simp_all add: isFileEvent_simps split: option.splits)

lemma files_insertEntries:
  "filter isFileEvent (fst (insertEntries W tr es)) = filter isFileEvent tr"
proof -
  obtain tr1 r where i: "issue W (chunksOf 20000 (map rowOf es)) (tr @ [CreatePool]) = (tr1, r)"
    by (cases "issue W (chunksOf 20000 (map rowOf es)) (tr @ [CreatePool])")
  have "filter isFileEvent tr1 = filter isFileEvent (tr @ [CreatePool])"
    using files_issue [of W "chunksOf 20000 (map rowOf es)" "tr @ [CreatePool]"] i by simp
  then show ?thesis
    by (cases r) (simp_all add: insertEntries_issue i isFileEvent_simps)
qed

lemma files_transfer:
  "filter isFileEvent (fst (transfer L W doInsert tr loaded)) = filter isFileEvent tr"
proof (cases loaded)
  case (Pair entries failedEntries)
  show ?thesis
  proof (cases "insertEntries W (reportFailedEntries W tr failedEntries) entries")
    case (Pair tr2 r)
    then have "filter isFileEvent tr2 = filter isFileEvent tr"
      using files_insertEntries [of W "reportFailedEntries W tr failedEntries" entries]
      by (simp add: files_reportFailedEntries)
    with Pair \<open>loaded = (entries, failedEntries)\<close> show ?thesis
      by (cases r)
        (simp_all add: transfer_def Let_def files_report files_reportFailedEntries)
  qed
qed

lemma files_parseAndTransfer:
  "filter isFileEvent (fst (parseAndTransfer L W doTruncate doInsert tr)) =
     filter isFileEvent tr
       @ (if readError W = None
          then (if doTruncate then [OpenSource, SourceEnd, Truncate] else [OpenSource, SourceEnd])
          else [OpenSource])"
  by (simp add: parseAndTransfer_def loadEntries_def files_transfer isFileEvent_simps
      split: option.splits)

lemma files_tryBlock:
  "filter isFileEvent (fst (tryBlock L W doTruncate doInsert)) =
     (if doTruncate then
        (if copyError W \<noteq> None then [CopyFile]
         else if readError W \<noteq> None then [CopyFile, OpenSource]
         else [CopyFile, OpenSource, SourceEnd, Truncate])
      else if readError W = None then [OpenSource, SourceEnd] else [OpenSource])"
  by (auto simp: tryBlock_def Let_def files_parseAndTransfer files_report isFileEvent_simps
      report_def split: option.splits)

lemma files_main:
  "filter isFileEvent (main L W argv) =
     (if ''--no-truncate'' \<in> set argv then
        (if readError W = None then [OpenSource, SourceEnd] else [OpenSource])
      else if copyError W \<noteq> None then [CopyFile]
      else if readError W \<noteq> None then [CopyFile, OpenSource]
      else [CopyFile, OpenSource, SourceEnd, Truncate])"
proof -
  obtain tr r where t:
    "tryBlock L W (''--no-truncate'' \<notin> set argv) (''--no-insert'' \<notin> set argv) = (tr, r)"
    by (cases "tryBlock L W (''--no-truncate'' \<notin> set argv) (''--no-insert'' \<notin> set argv)")
  have "filter isFileEvent (main L W argv) = filter isFileEvent tr"
    by (cases r) (simp_all add: main_def Let_def t files_report isFileEvent_simps)
  moreover have "filter isFileEvent tr =
      filter isFileEvent
        (fst (tryBlock L W (''--no-truncate'' \<notin> set argv) (''--no-insert'' \<notin> set argv)))"
    by (simp add: t)
  ultimately show ?thesis
    by (simp add: files_tryBlock)
qed

text \<open>
  C6. Of the events of a run, those on the files are, in this order: the backup copy when
  truncation is enabled; then, unless the copy failed, the opening of the source; then,
  unless the stream failed, its end; then, when truncation is enabled, the truncation.
  So the source is truncated only when truncation is enabled and the parse step has
  consumed the whole stream, never when parsing fails, and with truncation enabled parsing
  starts only after the backup copy was made.
\<close>

theorem main_file_order:
  fixes L :: lib and W :: world and argv :: "string list"
  defines "files \<equiv> filter isFileEvent (main L W argv)"
  shows "files =
           (if ''--no-truncate'' \<in> set argv then
              (if readError W = None then [OpenSource, SourceEnd] else [OpenSource])
            else if copyError W \<noteq> None then [CopyFile]
            else if readError W \<noteq> None then [CopyFile, OpenSource]
            else [CopyFile, OpenSource, SourceEnd, Truncate])
       \<and> (Truncate \<in> set (main L W argv) \<longrightarrow>
            ''--no-truncate'' \<notin> set argv \<and> readError W = None
            \<and> files = [CopyFile, OpenSource, SourceEnd, Truncate])
       \<and> (readError W \<noteq> None \<longrightarrow> Truncate \<notin> set (main L W argv))
       \<and> (''--no-truncate'' \<notin> set argv \<and> OpenSource \<in> set (main L W argv) \<longrightarrow>
            copyError W = None \<and> take 2 files = [CopyFile, OpenSource])"
proof -
  have eq: "files =
           (if ''--no-truncate'' \<in> set argv then
              (if readError W = None then [OpenSource, SourceEnd] else [OpenSource])
            else if copyError W \<noteq> None then [CopyFile]
            else if readError W \<noteq> None then [CopyFile, OpenSource]
            else [CopyFile, OpenSource, SourceEnd, Truncate])"
    by (simp only: files_def files_main)
  have mem: "\<And>ev. isFileEvent ev \<Longrightarrow> ev \<in> set (main L W argv) \<longleftrightarrow> ev \<in> set files"
    by (simp add: files_def)
  have t: "Truncate \<in> set (main L W argv) \<longleftrightarrow> Truncate \<in> set files"
    and o: "OpenSource \<in> set (main L W argv) \<longleftrightarrow> OpenSource \<in> set files"
    by (simp_all add: mem isFileEvent_simps)
  show ?thesis
    unfolding t o using eq by (auto split: if_splits)
qed

theorem main_file_order_witness:
  "filter isFileEvent (main sampleLib calmWorld []) = [CopyFile, OpenSource, SourceEnd, Truncate]
   \<and> filter isFileEvent (main sampleLib calmWorld [''--no-truncate'']) = [OpenSource, SourceEnd]
   \<and> readError unreadableWorld \<noteq> None
   \<and> Truncate \<notin> set (main sampleLib unreadableWorld [])"
proof -
  have u: "readError unreadableWorld \<noteq> None" "copyError unreadableWorld = None"
    by (simp_all add: unreadableWorld_def calmWorld_def)
  show ?thesis
    using u main_file_order [of sampleLib calmWorld "[]"]
      main_file_order [of sampleLib calmWorld "[''--no-truncate'']"]
      main_file_order [of sampleLib unreadableWorld "[]"]
    by (simp add: calmWorld_quiet)
qed

end
